theory Spec2Isabelle
  imports Complex_Main
begin

section \<open>The cluster-health collector of the Elasticsearch exporter\<close>

text \<open>
  The development follows \<^verbatim>\<open>collector/cluster_health.go\<close>. Go's \<^verbatim>\<open>float64\<close> is
  read as \<^typ>\<open>real\<close>: the values the properties below speak about are \<open>0\<close> and \<open>1\<close>,
  which the conversion represents exactly; the rounding of very large shard counts is not
  part of the model. Go strings are \<^typ>\<open>string\<close>, a \<^verbatim>\<open>nil\<close> error is \<^term>\<open>None\<close>.
\<close>

subsection \<open>The decoded health document\<close>

text \<open>
  Modelled from the spec: the struct type \<^verbatim>\<open>clusterHealthResponse\<close> is declared in a file
  of the package that is not part of the sources at hand. Its fields are those that
  \<^verbatim>\<open>NewClusterHealth\<close> and \<^verbatim>\<open>Collect\<close> read; the spec gives their kinds (two strings read
  as cluster name and status, one boolean, ten integers) and their JSON names.
\<close>

record clusterHealthResponse =
  ActivePrimaryShards :: int
  ActiveShards :: int
  ClusterName :: string
  DelayedUnassignedShards :: int
  InitializingShards :: int
  NumberOfDataNodes :: int
  NumberOfInFlightFetch :: int
  NumberOfNodes :: int
  NumberOfPendingTasks :: int
  RelocatingShards :: int
  Status :: string
  TimedOut :: bool
  UnassignedShards :: int

text \<open>The value of \<^verbatim>\<open>var chr clusterHealthResponse\<close>: every field at its zero value.\<close>

definition zeroClusterHealthResponse :: clusterHealthResponse where
  "zeroClusterHealthResponse =
     \<lparr>ActivePrimaryShards = 0, ActiveShards = 0, ClusterName = [],
      DelayedUnassignedShards = 0, InitializingShards = 0, NumberOfDataNodes = 0,
      NumberOfInFlightFetch = 0, NumberOfNodes = 0, NumberOfPendingTasks = 0,
      RelocatingShards = 0, Status = [], TimedOut = False, UnassignedShards = 0\<rparr>"

subsection \<open>Collaborators: URL, HTTP client, JSON decoder, clock, logger\<close>

text \<open>The exported fields of \<^verbatim>\<open>url.URL\<close>; \<^verbatim>\<open>User\<close> is a pointer, \<^term>\<open>None\<close> when nil.\<close>

record URL =
  Scheme :: string
  Opaque :: string
  User :: "(string \<times> string option) option"
  Host :: string
  Path :: string
  RawPath :: string
  ForceQuery :: bool
  RawQuery :: string
  Fragment :: string

datatype json =
    JNull
  | JBool bool
  | JInt int
  | JFraction string
  | JString string
  | JArray "json list"
  | JObject "(string \<times> json) list"

text \<open>
  A response body as the decoder sees it: either no complete JSON value can be read from
  it (a syntax error, a truncated stream, a failed read), or it holds a JSON value.
  \<^term>\<open>JInt\<close> is a number written as an integer literal, \<^term>\<open>JFraction\<close> a number
  written with a fraction or an exponent (kept as its text).
\<close>

datatype Body = Unreadable | Document json

record Response =
  StatusCode :: int
  Body :: Body

datatype decode_error =
    SyntaxError
  | UnmarshalTypeError string string

datatype fetch_error =
    GetFailed string string
  | StatusFailed int
  | DecodeFailed decode_error

datatype Logger = Logger string

text \<open>
  The calls a scrape makes on its collaborators and on its two counters, in program order.
  The list is ghost state: it records what was called and when, nothing reads it.
\<close>

datatype call =
    TotalScrapes_Inc
  | Client_Get string
  | Body_Close
  | Json_Decode Body
  | Logger_Warn fetch_error
  | TotalScrapeErrors_Inc

text \<open>
  What the Go runtime and the standard library supply: \<^verbatim>\<open>(*url.URL).String\<close>,
  \<^verbatim>\<open>(*json.Decoder).Decode\<close> into a \<^verbatim>\<open>*clusterHealthResponse\<close> (it receives the record it
  writes into and returns it as it leaves it, with the error), and the three readings of
  the clock during one \<^verbatim>\<open>Collect\<close>, in nanoseconds since the epoch: at \<^verbatim>\<open>begun\<close>, at the
  timestamp and at \<^verbatim>\<open>time.Since\<close>.
\<close>

record runtime =
  URL_String :: "URL \<Rightarrow> string"
  json_Decode :: "Body \<Rightarrow> clusterHealthResponse \<Rightarrow> clusterHealthResponse \<times> decode_error option"
  clock_begun :: int
  clock_stamp :: int
  clock_since :: int

subsection \<open>The decoder of the standard library\<close>

text \<open>
  \<^verbatim>\<open>encoding/json\<close> is not code of the repository. Its documented behaviour on a struct
  target is written out here so that concrete response bodies can be run: a body that is
  not a complete JSON value is rejected before anything is stored; \<^verbatim>\<open>null\<close> stores
  nothing; the members of an object are stored in order, a key naming no field is skipped,
  a value that does not fit its field is skipped and the earliest such mismatch is
  returned as the error once the object has been gone through. Keys are compared with the
  field tags ignoring the case of ASCII letters (the library also folds two non-ASCII
  letters, which is left out). Integer fields take integer literals in the range of a
  64-bit \<^verbatim>\<open>int\<close>.
\<close>

text \<open>An upper-case ASCII letter becomes lower-case by adding 32, which sets its sixth bit.\<close>

definition asciiLower :: "char \<Rightarrow> char" where
  "asciiLower ch =
     (let n = (of_char ch :: nat) in
      if 65 \<le> n \<and> n \<le> 90
      then (case ch of Char b0 b1 b2 b3 b4 b5 b6 b7 \<Rightarrow> Char b0 b1 b2 b3 b4 True b6 b7)
      else ch)"

definition jsonKind :: "json \<Rightarrow> string" where
  "jsonKind v =
     (case v of
        JNull \<Rightarrow> ''null''
      | JBool b \<Rightarrow> ''bool''
      | JInt n \<Rightarrow> ''number''
      | JFraction s \<Rightarrow> ''number''
      | JString s \<Rightarrow> ''string''
      | JArray xs \<Rightarrow> ''array''
      | JObject ms \<Rightarrow> ''object'')"

definition storeString ::
  "string \<Rightarrow> json \<Rightarrow> (string \<Rightarrow> clusterHealthResponse) \<Rightarrow> clusterHealthResponse
     \<Rightarrow> clusterHealthResponse \<times> decode_error option" where
  "storeString tag v put chr =
     (case v of
        JString s \<Rightarrow> (put s, None)
      | JNull \<Rightarrow> (chr, None)
      | _ \<Rightarrow> (chr, Some (UnmarshalTypeError (jsonKind v) tag)))"

definition storeBool ::
  "string \<Rightarrow> json \<Rightarrow> (bool \<Rightarrow> clusterHealthResponse) \<Rightarrow> clusterHealthResponse
     \<Rightarrow> clusterHealthResponse \<times> decode_error option" where
  "storeBool tag v put chr =
     (case v of
        JBool b \<Rightarrow> (put b, None)
      | JNull \<Rightarrow> (chr, None)
      | _ \<Rightarrow> (chr, Some (UnmarshalTypeError (jsonKind v) tag)))"

definition storeInt ::
  "string \<Rightarrow> json \<Rightarrow> (int \<Rightarrow> clusterHealthResponse) \<Rightarrow> clusterHealthResponse
     \<Rightarrow> clusterHealthResponse \<times> decode_error option" where
  "storeInt tag v put chr =
     (case v of
        JInt n \<Rightarrow>
          (if - (2 ^ 63) \<le> n \<and> n < 2 ^ 63 then (put n, None)
           else (chr, Some (UnmarshalTypeError (jsonKind v) tag)))
      | JNull \<Rightarrow> (chr, None)
      | _ \<Rightarrow> (chr, Some (UnmarshalTypeError (jsonKind v) tag)))"

definition storeMember ::
  "string \<Rightarrow> json \<Rightarrow> clusterHealthResponse \<Rightarrow> clusterHealthResponse \<times> decode_error option" where
  "storeMember key v chr =
     (let tag = map asciiLower key in
      if tag = ''cluster_name'' then storeString tag v (\<lambda>x. chr\<lparr>ClusterName := x\<rparr>) chr
      else if tag = ''status'' then storeString tag v (\<lambda>x. chr\<lparr>Status := x\<rparr>) chr
      else if tag = ''timed_out'' then storeBool tag v (\<lambda>x. chr\<lparr>TimedOut := x\<rparr>) chr
      else if tag = ''active_primary_shards''
        then storeInt tag v (\<lambda>x. chr\<lparr>ActivePrimaryShards := x\<rparr>) chr
      else if tag = ''active_shards'' then storeInt tag v (\<lambda>x. chr\<lparr>ActiveShards := x\<rparr>) chr
      else if tag = ''delayed_unassigned_shards''
        then storeInt tag v (\<lambda>x. chr\<lparr>DelayedUnassignedShards := x\<rparr>) chr
      else if tag = ''initializing_shards''
        then storeInt tag v (\<lambda>x. chr\<lparr>InitializingShards := x\<rparr>) chr
      else if tag = ''number_of_data_nodes''
        then storeInt tag v (\<lambda>x. chr\<lparr>NumberOfDataNodes := x\<rparr>) chr
      else if tag = ''number_of_in_flight_fetch''
        then storeInt tag v (\<lambda>x. chr\<lparr>NumberOfInFlightFetch := x\<rparr>) chr
      else if tag = ''number_of_nodes'' then storeInt tag v (\<lambda>x. chr\<lparr>NumberOfNodes := x\<rparr>) chr
      else if tag = ''number_of_pending_tasks''
        then storeInt tag v (\<lambda>x. chr\<lparr>NumberOfPendingTasks := x\<rparr>) chr
      else if tag = ''relocating_shards''
        then storeInt tag v (\<lambda>x. chr\<lparr>RelocatingShards := x\<rparr>) chr
      else if tag = ''unassigned_shards''
        then storeInt tag v (\<lambda>x. chr\<lparr>UnassignedShards := x\<rparr>) chr
      else (chr, None))"

fun storeMembers ::
  "(string \<times> json) list \<Rightarrow> clusterHealthResponse \<Rightarrow> decode_error option
     \<Rightarrow> clusterHealthResponse \<times> decode_error option" where
  "storeMembers [] chr saved = (chr, saved)"
| "storeMembers ((key, v) # ms) chr saved =
     (case storeMember key v chr of
        (chr', e) \<Rightarrow> storeMembers ms chr' (if saved = None then e else saved))"

definition Decode ::
  "Body \<Rightarrow> clusterHealthResponse \<Rightarrow> clusterHealthResponse \<times> decode_error option" where
  "Decode b chr =
     (case b of
        Unreadable \<Rightarrow> (chr, Some SyntaxError)
      | Document v \<Rightarrow>
          (case v of
             JNull \<Rightarrow> (chr, None)
           | JObject ms \<Rightarrow> storeMembers ms chr None
           | _ \<Rightarrow> (chr, Some (UnmarshalTypeError (jsonKind v) ''clusterHealthResponse''))))"

subsection \<open>The metrics library\<close>

text \<open>
  \<^verbatim>\<open>prometheus.Desc\<close>, constant metrics, counters and gauges, as far as the collector uses
  them. A descriptor is identified by its fully-qualified name and its constant labels.
  \<^verbatim>\<open>MustNewConstMetric\<close> panics when the number of label values differs from the number
  of variable labels of the descriptor: the panic is \<^term>\<open>None\<close>. The checks the library
  makes on the names given to \<^verbatim>\<open>NewDesc\<close> are left out: the names are the constants of
  \<^verbatim>\<open>NewClusterHealth\<close>. Counter values are read as reals like every \<^verbatim>\<open>float64\<close>.
\<close>

datatype ValueType = CounterValue | GaugeValue | UntypedValue

record Desc =
  fqName :: string
  helpString :: string
  variableLabels :: "string list"
  constLabels :: "(string \<times> string) list"

definition NewDesc :: "string \<Rightarrow> string \<Rightarrow> string list \<Rightarrow> (string \<times> string) list \<Rightarrow> Desc" where
  "NewDesc fq h vl cl = \<lparr>fqName = fq, helpString = h, variableLabels = vl, constLabels = cl\<rparr>"

definition BuildFQName :: "string \<Rightarrow> string \<Rightarrow> string \<Rightarrow> string" where
  "BuildFQName ns subsystem name =
     (if name = [] then []
      else if ns \<noteq> [] \<and> subsystem \<noteq> [] then ns @ ''_'' @ subsystem @ ''_'' @ name
      else if ns \<noteq> [] then ns @ ''_'' @ name
      else if subsystem \<noteq> [] then subsystem @ ''_'' @ name
      else name)"

record Metric =
  desc :: Desc
  valueType :: ValueType
  val :: real
  labelValues :: "string list"

definition MustNewConstMetric :: "Desc \<Rightarrow> ValueType \<Rightarrow> real \<Rightarrow> string list \<Rightarrow> Metric option" where
  "MustNewConstMetric d t v lvs =
     (if length lvs \<noteq> length (variableLabels d) then None
      else Some \<lparr>desc = d, valueType = t, val = v, labelValues = lvs\<rparr>)"

record Opts =
  Namespace :: string
  Subsystem :: string
  Name :: string
  Help :: string
  ConstLabels :: "(string \<times> string) list"

text \<open>A counter or a gauge: its descriptor and its current value.\<close>

record Counter =
  counterDesc :: Desc
  counterVal :: real

record Gauge =
  gaugeDesc :: Desc
  gaugeVal :: real

definition NewCounter :: "Opts \<Rightarrow> Counter" where
  "NewCounter opts =
     \<lparr>counterDesc = NewDesc (BuildFQName (Namespace opts) (Subsystem opts) (Name opts))
        (Help opts) [] (ConstLabels opts),
      counterVal = 0\<rparr>"

definition NewGauge :: "Opts \<Rightarrow> Gauge" where
  "NewGauge opts =
     \<lparr>gaugeDesc = NewDesc (BuildFQName (Namespace opts) (Subsystem opts) (Name opts))
        (Help opts) [] (ConstLabels opts),
      gaugeVal = 0\<rparr>"

definition Inc :: "Counter \<Rightarrow> Counter" where
  "Inc k = k\<lparr>counterVal := counterVal k + 1\<rparr>"

definition Set_gauge :: "real \<Rightarrow> Gauge \<Rightarrow> Gauge" where
  "Set_gauge v g = g\<lparr>gaugeVal := v\<rparr>"

text \<open>\<^verbatim>\<open>Collect(ch)\<close> of a counter or a gauge sends the metric itself, with its current value.\<close>

definition Counter_Collect :: "Counter \<Rightarrow> Metric" where
  "Counter_Collect k =
     \<lparr>desc = counterDesc k, valueType = CounterValue, val = counterVal k, labelValues = []\<rparr>"

definition Gauge_Collect :: "Gauge \<Rightarrow> Metric" where
  "Gauge_Collect g =
     \<lparr>desc = gaugeDesc g, valueType = GaugeValue, val = gaugeVal g, labelValues = []\<rparr>"

subsection \<open>The collector\<close>

definition namespace :: string where
  "namespace = ''elasticsearch''"

definition colors :: "string list" where
  "colors = [''green'', ''yellow'', ''red'']"

definition defaultClusterHealthLabels :: "string list" where
  "defaultClusterHealthLabels = [''cluster'']"

record clusterHealthMetric =
  metricType :: ValueType
  metricDesc :: Desc
  metricValue :: "clusterHealthResponse \<Rightarrow> real"

text \<open>
  The field \<^verbatim>\<open>Labels\<close> of the status metric is never set and never called: it is the nil
  function value, \<^term>\<open>None\<close>.
\<close>

record clusterHealthStatusMetric =
  statusType :: ValueType
  statusDesc :: Desc
  statusValue :: "clusterHealthResponse \<Rightarrow> string \<Rightarrow> real"
  statusLabels :: "(string \<Rightarrow> string \<Rightarrow> string list) option"

text \<open>
  The HTTP client is what it answers to a \<^verbatim>\<open>Get\<close> of a target: a transport error or a
  response. The field \<open>url\<close> is the value the pointer \<^verbatim>\<open>c.url\<close> points to, which the
  collector shares with whoever constructed it. \<open>calls\<close> is the ghost list of calls.
\<close>

record ClusterHealth =
  logger :: Logger
  client :: "string \<Rightarrow> string + Response"
  url :: URL
  metrics :: "clusterHealthMetric list"
  statusMetric :: clusterHealthStatusMetric
  totalScrapesMetric :: Counter
  totalScrapeErrorsMetric :: Counter
  lastScrapeErrorMetric :: Gauge
  lastScrapeTimestampMetric :: Gauge
  lastScrapeDurationSecondsMetric :: Gauge
  calls :: "call list"

definition scalarMetric ::
  "string \<Rightarrow> string \<Rightarrow> string \<Rightarrow> (clusterHealthResponse \<Rightarrow> real) \<Rightarrow> clusterHealthMetric" where
  "scalarMetric subsystem name helpText f =
     \<lparr>metricType = GaugeValue,
      metricDesc = NewDesc (BuildFQName namespace subsystem name) helpText
        defaultClusterHealthLabels [],
      metricValue = f\<rparr>"

definition metaOpts :: "runtime \<Rightarrow> URL \<Rightarrow> string \<Rightarrow> string \<Rightarrow> Opts" where
  "metaOpts rt u name helpText =
     \<lparr>Namespace = namespace, Subsystem = ''cluster_health'', Name = name, Help = helpText,
      ConstLabels = [(''url'', URL_String rt u)]\<rparr>"

definition NewClusterHealth ::
  "runtime \<Rightarrow> Logger \<Rightarrow> (string \<Rightarrow> string + Response) \<Rightarrow> URL \<Rightarrow> ClusterHealth" where
  "NewClusterHealth rt lg cl u =
     (let subsystem = ''cluster_health'' in
      \<lparr>logger = lg,
       client = cl,
       url = u,
       metrics =
         [scalarMetric subsystem ''active_primary_shards''
            ''Tthe number of primary shards in your cluster. This is an aggregate total across all indices.''
            (\<lambda>clusterHealth. real_of_int (ActivePrimaryShards clusterHealth)),
          scalarMetric subsystem ''active_shards''
            ''Aggregate total of all shards across all indices, which includes replica shards.''
            (\<lambda>clusterHealth. real_of_int (ActiveShards clusterHealth)),
          scalarMetric subsystem ''delayed_unassigned_shards''
            ''Shards delayed to reduce reallocation overhead''
            (\<lambda>clusterHealth. real_of_int (DelayedUnassignedShards clusterHealth)),
          scalarMetric subsystem ''initializing_shards''
            ''Count of shards that are being freshly created.''
            (\<lambda>clusterHealth. real_of_int (InitializingShards clusterHealth)),
          scalarMetric subsystem ''number_of_data_nodes''
            ''Number of data nodes in the cluster.''
            (\<lambda>clusterHealth. real_of_int (NumberOfDataNodes clusterHealth)),
          scalarMetric subsystem ''number_of_in_flight_fetch''
            ''The number of ongoing shard info requests.''
            (\<lambda>clusterHealth. real_of_int (NumberOfInFlightFetch clusterHealth)),
          scalarMetric subsystem ''number_of_nodes''
            ''Number of nodes in the cluster.''
            (\<lambda>clusterHealth. real_of_int (NumberOfNodes clusterHealth)),
          scalarMetric subsystem ''number_of_pending_tasks''
            ''Cluster level changes which have not yet been executed''
            (\<lambda>clusterHealth. real_of_int (NumberOfPendingTasks clusterHealth)),
          scalarMetric subsystem ''relocating_shards''
            ''The number of shards that are currently moving from one node to another node.''
            (\<lambda>clusterHealth. real_of_int (RelocatingShards clusterHealth)),
          scalarMetric subsystem ''timed_out''
            ''Number of cluster health checks timed out''
            (\<lambda>clusterHealth. if TimedOut clusterHealth then 1 else 0),
          scalarMetric subsystem ''unassigned_shards''
            ''The number of shards that exist in the cluster state, but cannot be found in the cluster itself.''
            (\<lambda>clusterHealth. real_of_int (UnassignedShards clusterHealth))],
       statusMetric =
         \<lparr>statusType = GaugeValue,
          statusDesc = NewDesc (BuildFQName namespace subsystem ''status'')
            ''Whether all primary and replica shards are allocated.''
            [''cluster'', ''color''] [],
          statusValue = (\<lambda>clusterHealth color. if Status clusterHealth = color then 1 else 0),
          statusLabels = None\<rparr>,
       totalScrapesMetric = NewCounter (metaOpts rt u ''scrapes_total''
         ''Total number of times ElasticSearch cluster health was scraped for metrics.''),
       totalScrapeErrorsMetric = NewCounter (metaOpts rt u ''scrape_errors_total''
         ''Total number of times an error occured scraping ElasticSearch cluster health.''),
       lastScrapeErrorMetric = NewGauge (metaOpts rt u ''last_scrape_error''
         ''Whether the last scrape of metrics from ElasticSearch cluster health resulted in an error (1 for error, 0 for success).''),
       lastScrapeTimestampMetric = NewGauge (metaOpts rt u ''last_scrape_timestamp''
         ''Number of seconds since 1970 since last scrape from ElasticSearch cluster health.''),
       lastScrapeDurationSecondsMetric = NewGauge (metaOpts rt u ''last_scrape_duration_seconds''
         ''Duration of the last scrape from ElasticSearch cluster health.''),
       calls = []\<rparr>)"

text \<open>\<^verbatim>\<open>Describe\<close>: the descriptors sent on the channel, in the order they are sent.\<close>

definition Describe :: "ClusterHealth \<Rightarrow> Desc list" where
  "Describe c = map metricDesc (metrics c) @ [statusDesc (statusMetric c)]"

definition called :: "call list \<Rightarrow> ClusterHealth \<Rightarrow> ClusterHealth" where
  "called cs c = c\<lparr>calls := calls c @ cs\<rparr>"

text \<open>
  \<^verbatim>\<open>fetchAndDecodeClusterHealth\<close> has a pointer receiver: it returns its two results and
  the collector as it leaves it. \<open>u\<close> is the local copy of \<^verbatim>\<open>*c.url\<close>; the deferred
  \<^verbatim>\<open>res.Body.Close()\<close> runs at each return after a response was received.
\<close>

definition fetchAndDecodeClusterHealth ::
  "runtime \<Rightarrow> ClusterHealth
     \<Rightarrow> (clusterHealthResponse \<times> fetch_error option) \<times> ClusterHealth" where
  "fetchAndDecodeClusterHealth rt c =
     (let chr = zeroClusterHealthResponse;
          u = url c;
          u = u\<lparr>Path := ''/_cluster/health''\<rparr>;
          target = URL_String rt u
      in case client c target of
           Inl err \<Rightarrow>
             ((chr, Some (GetFailed target err)), called [Client_Get target] c)
         | Inr res \<Rightarrow>
             if StatusCode res \<noteq> 200
             then ((chr, Some (StatusFailed (StatusCode res))),
                   called [Client_Get target, Body_Close] c)
             else (case json_Decode rt (Body res) chr of
                     (chr, Some err) \<Rightarrow>
                       ((chr, Some (DecodeFailed err)),
                        called [Client_Get target, Json_Decode (Body res), Body_Close] c)
                   | (chr, None) \<Rightarrow>
                       ((chr, None),
                        called [Client_Get target, Json_Decode (Body res), Body_Close] c)))"

text \<open>
  \<^verbatim>\<open>Collect\<close> is written in the four parts of its body. Lines 293 to 300: the branch on
  the error of the fetch, which yields \<^verbatim>\<open>scrapeError\<close> and the collector.
\<close>

definition noteFetchError :: "fetch_error option \<Rightarrow> ClusterHealth \<Rightarrow> int \<times> ClusterHealth" where
  "noteFetchError err c =
     (case err of
        None \<Rightarrow> (0, c)
      | Some e \<Rightarrow>
          (1, called [TotalScrapeErrors_Inc]
                ((called [Logger_Warn e] c)
                   \<lparr>totalScrapeErrorsMetric := Inc (totalScrapeErrorsMetric c)\<rparr>)))"

text \<open>
  Lines 302 to 309: the loop over \<^verbatim>\<open>c.metrics\<close>. The result is the list of metrics sent,
  \<^term>\<open>None\<close> if \<^verbatim>\<open>MustNewConstMetric\<close> panics.
\<close>

definition sendMetrics :: "ClusterHealth \<Rightarrow> clusterHealthResponse \<Rightarrow> Metric list option" where
  "sendMetrics c clusterHealthResponse =
     those (map (\<lambda>metric.
        MustNewConstMetric (metricDesc metric) (metricType metric)
          (metricValue metric clusterHealthResponse)
          [ClusterName clusterHealthResponse]) (metrics c))"

text \<open>Lines 311 to 318: the loop over \<^verbatim>\<open>colors\<close>.\<close>

definition sendStatus :: "ClusterHealth \<Rightarrow> clusterHealthResponse \<Rightarrow> Metric list option" where
  "sendStatus c clusterHealthResponse =
     those (map (\<lambda>color.
        MustNewConstMetric (statusDesc (statusMetric c)) (statusType (statusMetric c))
          (statusValue (statusMetric c) clusterHealthResponse color)
          [ClusterName clusterHealthResponse, color]) colors)"

text \<open>Lines 320 to 330: the five metrics of the collector itself.\<close>

definition sendMeta :: "runtime \<Rightarrow> int \<Rightarrow> int \<Rightarrow> ClusterHealth \<Rightarrow> Metric list \<times> ClusterHealth" where
  "sendMeta rt begun scrapeError c =
     (let m1 = Counter_Collect (totalScrapesMetric c);
          m2 = Counter_Collect (totalScrapeErrorsMetric c);
          c = c\<lparr>lastScrapeErrorMetric :=
                  Set_gauge (real_of_int scrapeError) (lastScrapeErrorMetric c)\<rparr>;
          m3 = Gauge_Collect (lastScrapeErrorMetric c);
          c = c\<lparr>lastScrapeTimestampMetric :=
                  Set_gauge (real_of_int (clock_stamp rt div 1000000000))
                    (lastScrapeTimestampMetric c)\<rparr>;
          m4 = Gauge_Collect (lastScrapeTimestampMetric c);
          c = c\<lparr>lastScrapeDurationSecondsMetric :=
                  Set_gauge (real_of_int (clock_since rt - begun) / 1000000000)
                    (lastScrapeDurationSecondsMetric c)\<rparr>;
          m5 = Gauge_Collect (lastScrapeDurationSecondsMetric c)
      in ([m1, m2, m3, m4, m5], c))"

text \<open>
  \<^verbatim>\<open>Collect\<close> (named \<open>Collect_scrape\<close>, the set comprehension of HOL being \<open>Collect\<close>): the
  metrics sent on the channel, in order, and the collector afterwards; \<^term>\<open>None\<close> if
  \<^verbatim>\<open>MustNewConstMetric\<close> panics.
\<close>

definition Collect_scrape :: "runtime \<Rightarrow> ClusterHealth \<Rightarrow> (Metric list \<times> ClusterHealth) option" where
  "Collect_scrape rt c =
     (let begun = clock_begun rt;
          c = called [TotalScrapes_Inc] (c\<lparr>totalScrapesMetric := Inc (totalScrapesMetric c)\<rparr>)
      in case fetchAndDecodeClusterHealth rt c of
        ((clusterHealthResponse, err), c) \<Rightarrow>
          (case noteFetchError err c of
             (scrapeError, c) \<Rightarrow>
               (case sendMetrics c clusterHealthResponse of
                  None \<Rightarrow> None
                | Some scalars \<Rightarrow>
                    (case sendStatus c clusterHealthResponse of
                       None \<Rightarrow> None
                     | Some statuses \<Rightarrow>
                         (case sendMeta rt begun scrapeError c of
                            (meta, c) \<Rightarrow> Some (scalars @ statuses @ meta, c))))))"

subsection \<open>Observations used to state the properties\<close>

text \<open>What a consumer of the channel reads off a metric: its name, its label values, its value.\<close>

definition sample :: "Metric \<Rightarrow> string \<times> string list \<times> real" where
  "sample m = (fqName (desc m), labelValues m, val m)"

text \<open>The metrics sent for the status descriptor, picked out by its name.\<close>

definition statusSamples :: "Metric list \<Rightarrow> Metric list" where
  "statusSamples ms =
     filter (\<lambda>m. fqName (desc m) = ''elasticsearch_cluster_health_status'') ms"

text \<open>The calls one run of \<^verbatim>\<open>fetchAndDecodeClusterHealth\<close> adds to the list of calls.\<close>

definition fetchCalls :: "runtime \<Rightarrow> ClusterHealth \<Rightarrow> call list" where
  "fetchCalls rt c = drop (length (calls c)) (calls (snd (fetchAndDecodeClusterHealth rt c)))"

text \<open>The target of the request: the rendering of the base URL with its path replaced.\<close>

definition healthTarget :: "runtime \<Rightarrow> ClusterHealth \<Rightarrow> string" where
  "healthTarget rt c = URL_String rt ((url c)\<lparr>Path := ''/_cluster/health''\<rparr>)"

text \<open>
  \<open>scrapedFrom c0 c\<close>: the collector \<open>c\<close> is the collector \<open>c0\<close> at some later moment. What
  \<^verbatim>\<open>NewClusterHealth\<close> fixed is as in \<open>c0\<close> (logger, base URL, metric list, status metric and
  the descriptors of the five metrics of the collector itself); the values of the counters
  and gauges, the answers of the client and the list of calls are whatever they are by then.
\<close>

definition scrapedFrom :: "ClusterHealth \<Rightarrow> ClusterHealth \<Rightarrow> bool" where
  "scrapedFrom c0 c \<longleftrightarrow>
     logger c = logger c0 \<and> url c = url c0 \<and>
     metrics c = metrics c0 \<and> statusMetric c = statusMetric c0 \<and>
     counterDesc (totalScrapesMetric c) = counterDesc (totalScrapesMetric c0) \<and>
     counterDesc (totalScrapeErrorsMetric c) = counterDesc (totalScrapeErrorsMetric c0) \<and>
     gaugeDesc (lastScrapeErrorMetric c) = gaugeDesc (lastScrapeErrorMetric c0) \<and>
     gaugeDesc (lastScrapeTimestampMetric c) = gaugeDesc (lastScrapeTimestampMetric c0) \<and>
     gaugeDesc (lastScrapeDurationSecondsMetric c) =
       gaugeDesc (lastScrapeDurationSecondsMetric c0)"


subsection \<open>Concrete scrapes\<close>

text \<open>
  A runtime with the decoder above, a rendering of URLs that have neither user, query nor
  fragment, and a clock that advances by a quarter of a second during the scrape.
\<close>

definition plainString :: "URL \<Rightarrow> string" where
  "plainString u = Scheme u @ ''://'' @ Host u @ Path u"

definition goRuntime :: runtime where
  "goRuntime =
     \<lparr>URL_String = plainString, json_Decode = Decode,
      clock_begun = 1500000000000000000, clock_stamp = 1500000000250000000,
      clock_since = 1500000000250000000\<rparr>"

definition esURL :: URL where
  "esURL =
     \<lparr>Scheme = ''http'', Opaque = [], User = None, Host = ''localhost:9200'', Path = [],
      RawPath = [], ForceQuery = False, RawQuery = [], Fragment = []\<rparr>"

text \<open>A client whose every request is answered with the given status code and body.\<close>

definition answering :: "int \<Rightarrow> Body \<Rightarrow> string \<Rightarrow> string + Response" where
  "answering code b target = Inr \<lparr>StatusCode = code, Body = b\<rparr>"

text \<open>A client whose every request fails in transport.\<close>

definition refusing :: "string \<Rightarrow> string + Response" where
  "refusing target = Inl ''connection refused''"

text \<open>
  \<^verbatim>\<open>{"cluster_name":"es1","status":"green","timed_out":false,
      "active_primary_shards":5,"active_shards":10}\<close>
\<close>

definition greenDocument :: Body where
  "greenDocument =
     Document (JObject [(''cluster_name'', JString ''es1''), (''status'', JString ''green''),
       (''timed_out'', JBool False), (''active_primary_shards'', JInt 5),
       (''active_shards'', JInt 10)])"

text \<open>\<^verbatim>\<open>{"cluster_name":"es1","status":"green","timed_out":"false"}\<close>: a string where a boolean is expected.\<close>

definition mistypedDocument :: Body where
  "mistypedDocument =
     Document (JObject [(''cluster_name'', JString ''es1''), (''status'', JString ''green''),
       (''timed_out'', JString ''false'')])"


definition collectorOf :: "(string \<Rightarrow> string + Response) \<Rightarrow> ClusterHealth" where
  "collectorOf cl = NewClusterHealth goRuntime (Logger ''stderr'') cl esURL"

definition es1Green :: clusterHealthResponse where
  "es1Green = zeroClusterHealthResponse\<lparr>ClusterName := ''es1'', Status := ''green''\<rparr>"

section \<open>Properties\<close>

subsection \<open>The parts of a scrape\<close>

lemma new_fields:
  "client (NewClusterHealth rt lg cl u) = cl"
  "url (NewClusterHealth rt lg cl u) = u"
  by (simp_all add: NewClusterHealth_def Let_def)

lemma scrapedFrom_refl: "scrapedFrom c c"
  by (simp add: scrapedFrom_def)

lemma send_scalar:
  "MustNewConstMetric (metricDesc (scalarMetric s n h f)) (metricType (scalarMetric s n h f)) v [l] =
     Some \<lparr>desc = NewDesc (BuildFQName namespace s n) h defaultClusterHealthLabels [],
           valueType = GaugeValue, val = v, labelValues = [l]\<rparr>"
  by (simp add: scalarMetric_def MustNewConstMetric_def NewDesc_def defaultClusterHealthLabels_def)

lemma scalar_value: "metricValue (scalarMetric s n h f) = f"
  by (simp add: scalarMetric_def)

lemma scalar_name:
  "fqName (metricDesc (scalarMetric s n h f)) = BuildFQName namespace s n"
  by (simp add: scalarMetric_def NewDesc_def)

lemma fq_cluster_health:
  "n \<noteq> [] \<Longrightarrow>
   BuildFQName namespace ''cluster_health'' n = ''elasticsearch_cluster_health_'' @ n"
  by (simp add: BuildFQName_def namespace_def)

lemma sendMetrics_new:
  "\<exists>ms. sendMetrics (NewClusterHealth rt0 lg cl u) chr = Some ms \<and> map sample ms =
     [(''elasticsearch_cluster_health_active_primary_shards'', [ClusterName chr],
         real_of_int (ActivePrimaryShards chr)),
      (''elasticsearch_cluster_health_active_shards'', [ClusterName chr],
         real_of_int (ActiveShards chr)),
      (''elasticsearch_cluster_health_delayed_unassigned_shards'', [ClusterName chr],
         real_of_int (DelayedUnassignedShards chr)),
      (''elasticsearch_cluster_health_initializing_shards'', [ClusterName chr],
         real_of_int (InitializingShards chr)),
      (''elasticsearch_cluster_health_number_of_data_nodes'', [ClusterName chr],
         real_of_int (NumberOfDataNodes chr)),
      (''elasticsearch_cluster_health_number_of_in_flight_fetch'', [ClusterName chr],
         real_of_int (NumberOfInFlightFetch chr)),
      (''elasticsearch_cluster_health_number_of_nodes'', [ClusterName chr],
         real_of_int (NumberOfNodes chr)),
      (''elasticsearch_cluster_health_number_of_pending_tasks'', [ClusterName chr],
         real_of_int (NumberOfPendingTasks chr)),
      (''elasticsearch_cluster_health_relocating_shards'', [ClusterName chr],
         real_of_int (RelocatingShards chr)),
      (''elasticsearch_cluster_health_timed_out'', [ClusterName chr],
         if TimedOut chr then 1 else 0),
      (''elasticsearch_cluster_health_unassigned_shards'', [ClusterName chr],
         real_of_int (UnassignedShards chr))]"
  by (simp add: sendMetrics_def NewClusterHealth_def Let_def send_scalar scalar_value sample_def
        fq_cluster_health NewDesc_def)

lemma sendMetrics_cong: "metrics c = metrics c0 \<Longrightarrow> sendMetrics c chr = sendMetrics c0 chr"
  by (simp add: sendMetrics_def)

lemma sendStatus_new:
  "\<exists>ms. sendStatus (NewClusterHealth rt0 lg cl u) chr = Some ms \<and> map sample ms =
     [(''elasticsearch_cluster_health_status'', [ClusterName chr, ''green''],
         if Status chr = ''green'' then 1 else 0),
      (''elasticsearch_cluster_health_status'', [ClusterName chr, ''yellow''],
         if Status chr = ''yellow'' then 1 else 0),
      (''elasticsearch_cluster_health_status'', [ClusterName chr, ''red''],
         if Status chr = ''red'' then 1 else 0)]"
  by (simp add: sendStatus_def NewClusterHealth_def Let_def MustNewConstMetric_def colors_def
        NewDesc_def sample_def fq_cluster_health)

lemma sendStatus_cong:
  "statusMetric c = statusMetric c0 \<Longrightarrow> sendStatus c chr = sendStatus c0 chr"
  by (simp add: sendStatus_def)

lemma meta_names:
  "fqName (counterDesc (totalScrapesMetric (NewClusterHealth rt0 lg cl u))) =
     ''elasticsearch_cluster_health_scrapes_total''"
  "fqName (counterDesc (totalScrapeErrorsMetric (NewClusterHealth rt0 lg cl u))) =
     ''elasticsearch_cluster_health_scrape_errors_total''"
  "fqName (gaugeDesc (lastScrapeErrorMetric (NewClusterHealth rt0 lg cl u))) =
     ''elasticsearch_cluster_health_last_scrape_error''"
  "fqName (gaugeDesc (lastScrapeTimestampMetric (NewClusterHealth rt0 lg cl u))) =
     ''elasticsearch_cluster_health_last_scrape_timestamp''"
  "fqName (gaugeDesc (lastScrapeDurationSecondsMetric (NewClusterHealth rt0 lg cl u))) =
     ''elasticsearch_cluster_health_last_scrape_duration_seconds''"
  by (simp_all add: NewClusterHealth_def Let_def NewCounter_def NewGauge_def metaOpts_def
        NewDesc_def BuildFQName_def namespace_def)

subsection \<open>The fetch\<close>

lemma fetch_snd: "snd (fetchAndDecodeClusterHealth rt c) = called (fetchCalls rt c) c"
  by (simp add: fetchCalls_def fetchAndDecodeClusterHealth_def called_def Let_def
      split: sum.split prod.split option.split)

lemma fetch_fst_cong:
  "client c' = client c \<Longrightarrow> url c' = url c \<Longrightarrow>
   fst (fetchAndDecodeClusterHealth rt c') = fst (fetchAndDecodeClusterHealth rt c)"
  by (simp add: fetchAndDecodeClusterHealth_def Let_def split: sum.split prod.split option.split)

lemma fetchCalls_cong:
  "client c' = client c \<Longrightarrow> url c' = url c \<Longrightarrow> fetchCalls rt c' = fetchCalls rt c"
  by (simp add: fetchCalls_def fetchAndDecodeClusterHealth_def called_def Let_def
      split: sum.split prod.split option.split)


lemma fetch_not_ok:
  assumes "client c (healthTarget rt c) = Inr res" and "StatusCode res \<noteq> 200"
  shows "fst (fetchAndDecodeClusterHealth rt c) =
           (zeroClusterHealthResponse, Some (StatusFailed (StatusCode res)))"
    and "fetchCalls rt c = [Client_Get (healthTarget rt c), Body_Close]"
  using assms
  by (simp_all add: fetchCalls_def fetchAndDecodeClusterHealth_def healthTarget_def called_def
        Let_def)



subsection \<open>One scrape\<close>

text \<open>
  The fetch reads the client and the base URL only, so it returns for the collector whose
  counter \<^verbatim>\<open>Collect\<close> has just incremented what it returns for the collector \<^verbatim>\<open>Collect\<close> was
  called on. The results below are stated with the fetch on the latter.
\<close>

lemma Collect_scrape_unfold:
  assumes f: "fst (fetchAndDecodeClusterHealth rt c) = (chr, err)"
    and m: "sendMetrics c chr = Some scalars"
    and s: "sendStatus c chr = Some statuses"
  shows "Collect_scrape rt c =
     (case noteFetchError err (called (fetchCalls rt c) (called [TotalScrapes_Inc]
              (c\<lparr>totalScrapesMetric := Inc (totalScrapesMetric c)\<rparr>))) of
        (scrapeError, c3) \<Rightarrow>
          (case sendMeta rt (clock_begun rt) scrapeError c3 of
             (meta, c4) \<Rightarrow> Some (scalars @ statuses @ meta, c4)))"
proof -
  let ?c1 = "called [TotalScrapes_Inc] (c\<lparr>totalScrapesMetric := Inc (totalScrapesMetric c)\<rparr>)"
  have c1: "client ?c1 = client c" "url ?c1 = url c"
    by (simp_all add: called_def)
  have f1: "fetchAndDecodeClusterHealth rt ?c1 = ((chr, err), called (fetchCalls rt c) ?c1)"
    using fetch_fst_cong [OF c1, of rt] fetchCalls_cong [OF c1, of rt] fetch_snd [of rt ?c1] f
    by (simp add: prod_eq_iff)
  obtain k c3 where n: "noteFetchError err (called (fetchCalls rt c) ?c1) = (k, c3)"
    by (cases "noteFetchError err (called (fetchCalls rt c) ?c1)")
  have c3: "metrics c3 = metrics c" "statusMetric c3 = statusMetric c"
    using n by (auto simp: noteFetchError_def called_def split: option.splits)
  have m3: "sendMetrics c3 chr = Some scalars"
    using m c3 by (simp add: sendMetrics_def)
  have s3: "sendStatus c3 chr = Some statuses"
    using s c3 by (simp add: sendStatus_def)
  show ?thesis
    by (simp add: Collect_scrape_def Let_def f1 n m3 s3 split: prod.split)
qed

lemma Collect_scrape_built:
  fixes err :: "fetch_error option"
  defines "k \<equiv> (if err = None then 0 else 1 :: real)"
  assumes b: "scrapedFrom (NewClusterHealth rt0 lg cl u) c"
    and f: "fst (fetchAndDecodeClusterHealth rt c) = (chr, err)"
  shows "\<exists>ms c'. Collect_scrape rt c = Some (ms, c') \<and>
     map sample ms =
       [(''elasticsearch_cluster_health_active_primary_shards'', [ClusterName chr],
           real_of_int (ActivePrimaryShards chr)),
        (''elasticsearch_cluster_health_active_shards'', [ClusterName chr],
           real_of_int (ActiveShards chr)),
        (''elasticsearch_cluster_health_delayed_unassigned_shards'', [ClusterName chr],
           real_of_int (DelayedUnassignedShards chr)),
        (''elasticsearch_cluster_health_initializing_shards'', [ClusterName chr],
           real_of_int (InitializingShards chr)),
        (''elasticsearch_cluster_health_number_of_data_nodes'', [ClusterName chr],
           real_of_int (NumberOfDataNodes chr)),
        (''elasticsearch_cluster_health_number_of_in_flight_fetch'', [ClusterName chr],
           real_of_int (NumberOfInFlightFetch chr)),
        (''elasticsearch_cluster_health_number_of_nodes'', [ClusterName chr],
           real_of_int (NumberOfNodes chr)),
        (''elasticsearch_cluster_health_number_of_pending_tasks'', [ClusterName chr],
           real_of_int (NumberOfPendingTasks chr)),
        (''elasticsearch_cluster_health_relocating_shards'', [ClusterName chr],
           real_of_int (RelocatingShards chr)),
        (''elasticsearch_cluster_health_timed_out'', [ClusterName chr],
           if TimedOut chr then 1 else 0),
        (''elasticsearch_cluster_health_unassigned_shards'', [ClusterName chr],
           real_of_int (UnassignedShards chr)),
        (''elasticsearch_cluster_health_status'', [ClusterName chr, ''green''],
           if Status chr = ''green'' then 1 else 0),
        (''elasticsearch_cluster_health_status'', [ClusterName chr, ''yellow''],
           if Status chr = ''yellow'' then 1 else 0),
        (''elasticsearch_cluster_health_status'', [ClusterName chr, ''red''],
           if Status chr = ''red'' then 1 else 0),
        (''elasticsearch_cluster_health_scrapes_total'', [],
           counterVal (totalScrapesMetric c) + 1),
        (''elasticsearch_cluster_health_scrape_errors_total'', [],
           counterVal (totalScrapeErrorsMetric c) + k),
        (''elasticsearch_cluster_health_last_scrape_error'', [], k),
        (''elasticsearch_cluster_health_last_scrape_timestamp'', [],
           real_of_int (clock_stamp rt div 1000000000)),
        (''elasticsearch_cluster_health_last_scrape_duration_seconds'', [],
           real_of_int (clock_since rt - clock_begun rt) / 1000000000)] \<and>
     scrapedFrom (NewClusterHealth rt0 lg cl u) c' \<and> client c' = client c \<and>
     counterVal (totalScrapesMetric c') = counterVal (totalScrapesMetric c) + 1 \<and>
     counterVal (totalScrapeErrorsMetric c') = counterVal (totalScrapeErrorsMetric c) + k \<and>
     gaugeVal (lastScrapeErrorMetric c') = k \<and>
     calls c' = calls c @ TotalScrapes_Inc # fetchCalls rt c @
        (case err of None \<Rightarrow> [] | Some x \<Rightarrow> [Logger_Warn x, TotalScrapeErrors_Inc])"
proof -
  let ?c0 = "NewClusterHealth rt0 lg cl u"
  have mc: "metrics c = metrics ?c0" and sc: "statusMetric c = statusMetric ?c0"
    using b by (simp_all add: scrapedFrom_def)
  obtain scalars where m: "sendMetrics c chr = Some scalars" and ms: "map sample scalars =
       [(''elasticsearch_cluster_health_active_primary_shards'', [ClusterName chr],
           real_of_int (ActivePrimaryShards chr)),
        (''elasticsearch_cluster_health_active_shards'', [ClusterName chr],
           real_of_int (ActiveShards chr)),
        (''elasticsearch_cluster_health_delayed_unassigned_shards'', [ClusterName chr],
           real_of_int (DelayedUnassignedShards chr)),
        (''elasticsearch_cluster_health_initializing_shards'', [ClusterName chr],
           real_of_int (InitializingShards chr)),
        (''elasticsearch_cluster_health_number_of_data_nodes'', [ClusterName chr],
           real_of_int (NumberOfDataNodes chr)),
        (''elasticsearch_cluster_health_number_of_in_flight_fetch'', [ClusterName chr],
           real_of_int (NumberOfInFlightFetch chr)),
        (''elasticsearch_cluster_health_number_of_nodes'', [ClusterName chr],
           real_of_int (NumberOfNodes chr)),
        (''elasticsearch_cluster_health_number_of_pending_tasks'', [ClusterName chr],
           real_of_int (NumberOfPendingTasks chr)),
        (''elasticsearch_cluster_health_relocating_shards'', [ClusterName chr],
           real_of_int (RelocatingShards chr)),
        (''elasticsearch_cluster_health_timed_out'', [ClusterName chr],
           if TimedOut chr then 1 else 0),
        (''elasticsearch_cluster_health_unassigned_shards'', [ClusterName chr],
           real_of_int (UnassignedShards chr))]"
    using sendMetrics_new [of rt0 lg cl u chr] sendMetrics_cong [OF mc, of chr] by auto
  obtain statuses where s: "sendStatus c chr = Some statuses" and ss: "map sample statuses =
       [(''elasticsearch_cluster_health_status'', [ClusterName chr, ''green''],
           if Status chr = ''green'' then 1 else 0),
        (''elasticsearch_cluster_health_status'', [ClusterName chr, ''yellow''],
           if Status chr = ''yellow'' then 1 else 0),
        (''elasticsearch_cluster_health_status'', [ClusterName chr, ''red''],
           if Status chr = ''red'' then 1 else 0)]"
    using sendStatus_new [of rt0 lg cl u chr] sendStatus_cong [OF sc, of chr] by auto
  have names:
    "fqName (counterDesc (totalScrapesMetric c)) = ''elasticsearch_cluster_health_scrapes_total''"
    "fqName (counterDesc (totalScrapeErrorsMetric c)) =
       ''elasticsearch_cluster_health_scrape_errors_total''"
    "fqName (gaugeDesc (lastScrapeErrorMetric c)) =
       ''elasticsearch_cluster_health_last_scrape_error''"
    "fqName (gaugeDesc (lastScrapeTimestampMetric c)) =
       ''elasticsearch_cluster_health_last_scrape_timestamp''"
    "fqName (gaugeDesc (lastScrapeDurationSecondsMetric c)) =
       ''elasticsearch_cluster_health_last_scrape_duration_seconds''"
    using b meta_names [of rt0 lg cl u] by (simp_all add: scrapedFrom_def)
  show ?thesis
  proof (cases err)
    case None
    then show ?thesis
      using b names
      by (simp add: Collect_scrape_unfold [OF f m s] ms ss k_def noteFetchError_def sendMeta_def
            called_def Inc_def Set_gauge_def Counter_Collect_def Gauge_Collect_def sample_def
            scrapedFrom_def Let_def)
  next
    case (Some x)
    then show ?thesis
      using b names
      by (simp add: Collect_scrape_unfold [OF f m s] ms ss k_def noteFetchError_def sendMeta_def
            called_def Inc_def Set_gauge_def Counter_Collect_def Gauge_Collect_def sample_def
            scrapedFrom_def Let_def)
  qed
qed

subsection \<open>The concrete scrapes, run\<close>

lemma Decode_green:
  "Decode greenDocument zeroClusterHealthResponse =
     (es1Green\<lparr>ActivePrimaryShards := 5, ActiveShards := 10\<rparr>, None)"
  by (simp add: Decode_def greenDocument_def storeMember_def storeString_def storeBool_def
        storeInt_def jsonKind_def asciiLower_def es1Green_def zeroClusterHealthResponse_def)

lemma Decode_mistyped:
  "Decode mistypedDocument zeroClusterHealthResponse =
     (es1Green, Some (UnmarshalTypeError ''string'' ''timed_out''))"
  by (simp add: Decode_def mistypedDocument_def storeMember_def storeString_def storeBool_def
        jsonKind_def asciiLower_def es1Green_def)


lemma fetch_answering:
  "fst (fetchAndDecodeClusterHealth goRuntime (collectorOf (answering code b))) =
     (if code \<noteq> 200 then (zeroClusterHealthResponse, Some (StatusFailed code))
      else (fst (Decode b zeroClusterHealthResponse),
            map_option DecodeFailed (snd (Decode b zeroClusterHealthResponse))))"
  by (simp add: fetchAndDecodeClusterHealth_def collectorOf_def new_fields goRuntime_def
        answering_def Let_def split: prod.split option.split)

lemma fetch_refusing:
  "fst (fetchAndDecodeClusterHealth goRuntime (collectorOf refusing)) =
     (zeroClusterHealthResponse,
      Some (GetFailed ''http://localhost:9200/_cluster/health'' ''connection refused''))"
  by (simp add: fetchAndDecodeClusterHealth_def collectorOf_def new_fields goRuntime_def
        refusing_def plainString_def esURL_def Let_def)

lemma fetchCalls_shape:
  "\<exists>rest. fetchCalls rt c = Client_Get (healthTarget rt c) # rest \<and>
     TotalScrapes_Inc \<notin> set rest \<and> TotalScrapeErrors_Inc \<notin> set rest \<and>
     (\<forall>t. Client_Get t \<notin> set rest)"
  by (simp add: fetchCalls_def fetchAndDecodeClusterHealth_def healthTarget_def called_def Let_def
      split: sum.split prod.split option.split)

lemma new_values:
  "counterVal (totalScrapesMetric (NewClusterHealth rt lg cl u)) = 0"
  "counterVal (totalScrapeErrorsMetric (NewClusterHealth rt lg cl u)) = 0"
  "gaugeVal (lastScrapeErrorMetric (NewClusterHealth rt lg cl u)) = 0"
  "calls (NewClusterHealth rt lg cl u) = []"
  by (simp_all add: NewClusterHealth_def Let_def NewCounter_def NewGauge_def)

lemma built_collectorOf:
  "scrapedFrom (NewClusterHealth goRuntime (Logger ''stderr'') cl esURL) (collectorOf cl)"
  by (simp add: collectorOf_def scrapedFrom_refl)

lemma target_collectorOf:
  "healthTarget goRuntime (collectorOf cl) = ''http://localhost:9200/_cluster/health''"
  by (simp add: healthTarget_def collectorOf_def new_fields goRuntime_def plainString_def
        esURL_def)

lemma Collect_scrape_parts:
  assumes b: "scrapedFrom (NewClusterHealth rt0 lg cl u) c"
    and f: "fst (fetchAndDecodeClusterHealth rt c) = (chr, err)"
  shows "\<exists>ms c'. Collect_scrape rt c = Some (ms, c') \<and> length ms = 19 \<and>
     map sample (take 11 ms) =
       [(''elasticsearch_cluster_health_active_primary_shards'', [ClusterName chr],
           real_of_int (ActivePrimaryShards chr)),
        (''elasticsearch_cluster_health_active_shards'', [ClusterName chr],
           real_of_int (ActiveShards chr)),
        (''elasticsearch_cluster_health_delayed_unassigned_shards'', [ClusterName chr],
           real_of_int (DelayedUnassignedShards chr)),
        (''elasticsearch_cluster_health_initializing_shards'', [ClusterName chr],
           real_of_int (InitializingShards chr)),
        (''elasticsearch_cluster_health_number_of_data_nodes'', [ClusterName chr],
           real_of_int (NumberOfDataNodes chr)),
        (''elasticsearch_cluster_health_number_of_in_flight_fetch'', [ClusterName chr],
           real_of_int (NumberOfInFlightFetch chr)),
        (''elasticsearch_cluster_health_number_of_nodes'', [ClusterName chr],
           real_of_int (NumberOfNodes chr)),
        (''elasticsearch_cluster_health_number_of_pending_tasks'', [ClusterName chr],
           real_of_int (NumberOfPendingTasks chr)),
        (''elasticsearch_cluster_health_relocating_shards'', [ClusterName chr],
           real_of_int (RelocatingShards chr)),
        (''elasticsearch_cluster_health_timed_out'', [ClusterName chr],
           if TimedOut chr then 1 else 0),
        (''elasticsearch_cluster_health_unassigned_shards'', [ClusterName chr],
           real_of_int (UnassignedShards chr))] \<and>
     statusSamples ms = take 3 (drop 11 ms) \<and>
     map sample (statusSamples ms) =
       [(''elasticsearch_cluster_health_status'', [ClusterName chr, ''green''],
           if Status chr = ''green'' then 1 else 0),
        (''elasticsearch_cluster_health_status'', [ClusterName chr, ''yellow''],
           if Status chr = ''yellow'' then 1 else 0),
        (''elasticsearch_cluster_health_status'', [ClusterName chr, ''red''],
           if Status chr = ''red'' then 1 else 0)]"
proof -
  obtain ms c' where r: "Collect_scrape rt c = Some (ms, c')"
    and l: "map sample ms =
       [(''elasticsearch_cluster_health_active_primary_shards'', [ClusterName chr],
           real_of_int (ActivePrimaryShards chr)),
        (''elasticsearch_cluster_health_active_shards'', [ClusterName chr],
           real_of_int (ActiveShards chr)),
        (''elasticsearch_cluster_health_delayed_unassigned_shards'', [ClusterName chr],
           real_of_int (DelayedUnassignedShards chr)),
        (''elasticsearch_cluster_health_initializing_shards'', [ClusterName chr],
           real_of_int (InitializingShards chr)),
        (''elasticsearch_cluster_health_number_of_data_nodes'', [ClusterName chr],
           real_of_int (NumberOfDataNodes chr)),
        (''elasticsearch_cluster_health_number_of_in_flight_fetch'', [ClusterName chr],
           real_of_int (NumberOfInFlightFetch chr)),
        (''elasticsearch_cluster_health_number_of_nodes'', [ClusterName chr],
           real_of_int (NumberOfNodes chr)),
        (''elasticsearch_cluster_health_number_of_pending_tasks'', [ClusterName chr],
           real_of_int (NumberOfPendingTasks chr)),
        (''elasticsearch_cluster_health_relocating_shards'', [ClusterName chr],
           real_of_int (RelocatingShards chr)),
        (''elasticsearch_cluster_health_timed_out'', [ClusterName chr],
           if TimedOut chr then 1 else 0),
        (''elasticsearch_cluster_health_unassigned_shards'', [ClusterName chr],
           real_of_int (UnassignedShards chr)),
        (''elasticsearch_cluster_health_status'', [ClusterName chr, ''green''],
           if Status chr = ''green'' then 1 else 0),
        (''elasticsearch_cluster_health_status'', [ClusterName chr, ''yellow''],
           if Status chr = ''yellow'' then 1 else 0),
        (''elasticsearch_cluster_health_status'', [ClusterName chr, ''red''],
           if Status chr = ''red'' then 1 else 0),
        (''elasticsearch_cluster_health_scrapes_total'', [],
           counterVal (totalScrapesMetric c) + 1),
        (''elasticsearch_cluster_health_scrape_errors_total'', [],
           counterVal (totalScrapeErrorsMetric c) + (if err = None then 0 else 1)),
        (''elasticsearch_cluster_health_last_scrape_error'', [], if err = None then 0 else 1),
        (''elasticsearch_cluster_health_last_scrape_timestamp'', [],
           real_of_int (clock_stamp rt div 1000000000)),
        (''elasticsearch_cluster_health_last_scrape_duration_seconds'', [],
           real_of_int (clock_since rt - clock_begun rt) / 1000000000)]"
    using Collect_scrape_built [OF b f] by (elim exE conjE) (rule that; assumption)
  have len: "length ms = 19"
    using arg_cong [OF l, of length] by simp
  obtain m1 m2 m3 m4 m5 m6 m7 m8 m9 m10 m11 m12 m13 m14 m15 m16 m17 m18 m19
    where ms: "ms = [m1, m2, m3, m4, m5, m6, m7, m8, m9, m10, m11, m12, m13, m14, m15, m16,
      m17, m18, m19]"
    using len by (auto simp: length_Suc_conv eval_nat_numeral)
  show ?thesis
    using r len l
    apply (intro exI [of _ ms] exI [of _ c'] conjI)
        apply assumption
       apply assumption
      apply (simp add: ms)
     apply (simp add: ms statusSamples_def sample_def)
    apply (simp add: ms statusSamples_def sample_def)
    done
qed



lemma Describe_new:
  "map fqName (Describe (NewClusterHealth rt0 lg cl u)) =
     [''elasticsearch_cluster_health_active_primary_shards'',
      ''elasticsearch_cluster_health_active_shards'',
      ''elasticsearch_cluster_health_delayed_unassigned_shards'',
      ''elasticsearch_cluster_health_initializing_shards'',
      ''elasticsearch_cluster_health_number_of_data_nodes'',
      ''elasticsearch_cluster_health_number_of_in_flight_fetch'',
      ''elasticsearch_cluster_health_number_of_nodes'',
      ''elasticsearch_cluster_health_number_of_pending_tasks'',
      ''elasticsearch_cluster_health_relocating_shards'',
      ''elasticsearch_cluster_health_timed_out'',
      ''elasticsearch_cluster_health_unassigned_shards'',
      ''elasticsearch_cluster_health_status'']"
  by (simp add: Describe_def NewClusterHealth_def Let_def scalar_name fq_cluster_health NewDesc_def)

lemma Describe_cong:
  "metrics c = metrics c0 \<Longrightarrow> statusMetric c = statusMetric c0 \<Longrightarrow> Describe c = Describe c0"
  by (simp add: Describe_def)

lemma client_collectorOf: "client (collectorOf cl) = cl"
  by (simp add: collectorOf_def new_fields)

lemma fetch_mistyped:
  "fst (fetchAndDecodeClusterHealth goRuntime (collectorOf (answering 200 mistypedDocument))) =
     (es1Green, Some (DecodeFailed (UnmarshalTypeError ''string'' ''timed_out'')))"
  by (simp add: fetch_answering Decode_mistyped)







section \<open>The claims of the specification\<close>

text \<open>
  C5. For every \<^verbatim>\<open>Collect\<close> call the counter \<^verbatim>\<open>scrapes_total\<close> increases by exactly 1,
  whatever the fetch returns: the call returns, the counter is one higher afterwards, and
  the increment is the first call of the scrape, made before the request of the fetch is
  issued, and the only increment of that counter.
\<close>

theorem scrapes_total_counts_every_call:
  assumes "scrapedFrom (NewClusterHealth rt0 lg cl u) c"
  shows "\<exists>ms c' rest. Collect_scrape rt c = Some (ms, c') \<and>
     counterVal (totalScrapesMetric c') = counterVal (totalScrapesMetric c) + 1 \<and>
     calls c' = calls c @ [TotalScrapes_Inc, Client_Get (healthTarget rt c)] @ rest \<and>
     TotalScrapes_Inc \<notin> set rest"
proof -
  obtain chr err where f: "fst (fetchAndDecodeClusterHealth rt c) = (chr, err)"
    by (cases "fst (fetchAndDecodeClusterHealth rt c)")
  obtain tl where tl: "fetchCalls rt c = Client_Get (healthTarget rt c) # tl"
    and no: "TotalScrapes_Inc \<notin> set tl"
    using fetchCalls_shape [of rt c] by blast
  obtain ms c' where r: "Collect_scrape rt c = Some (ms, c')"
    and n: "counterVal (totalScrapesMetric c') = counterVal (totalScrapesMetric c) + 1"
    and cs: "calls c' = calls c @ TotalScrapes_Inc # fetchCalls rt c @
        (case err of None \<Rightarrow> [] | Some x \<Rightarrow> [Logger_Warn x, TotalScrapeErrors_Inc])"
    using Collect_scrape_built [OF assms f] by blast
  let ?rest = "tl @ (case err of None \<Rightarrow> [] | Some x \<Rightarrow> [Logger_Warn x, TotalScrapeErrors_Inc])"
  have "calls c' = calls c @ [TotalScrapes_Inc, Client_Get (healthTarget rt c)] @ ?rest"
    using cs tl by simp
  moreover have "TotalScrapes_Inc \<notin> set ?rest"
    using no by (simp split: option.split)
  ultimately show ?thesis
    using r n by blast
qed

text \<open>The first scrape of a collector whose client is refused: the fetch fails, the counter is 1.\<close>

theorem scrapes_total_counts_every_call_witness:
  "scrapedFrom (NewClusterHealth goRuntime (Logger ''stderr'') refusing esURL)
     (collectorOf refusing) \<and>
   snd (fst (fetchAndDecodeClusterHealth goRuntime (collectorOf refusing))) \<noteq> None \<and>
   (\<exists>ms c' rest. Collect_scrape goRuntime (collectorOf refusing) = Some (ms, c') \<and>
      counterVal (totalScrapesMetric c') = 1 \<and>
      calls c' = [TotalScrapes_Inc, Client_Get ''http://localhost:9200/_cluster/health''] @ rest \<and>
      TotalScrapes_Inc \<notin> set rest)"
  using scrapes_total_counts_every_call [OF built_collectorOf [of refusing], of goRuntime]
  by (simp add: built_collectorOf target_collectorOf fetch_refusing)
     (simp add: collectorOf_def new_values)

text \<open>
  C6. For every \<^verbatim>\<open>Collect\<close> call the counter \<^verbatim>\<open>scrape_errors_total\<close> increases by exactly
  1 when the fetch fails and is unchanged when it succeeds (it is incremented once in the
  first case and not at all in the second), and the gauge \<^verbatim>\<open>last_scrape_error\<close> is set to
  1 if the fetch failed and to 0 otherwise, so that it is 0 or 1.
\<close>

theorem scrape_errors_count_failed_fetches:
  assumes "scrapedFrom (NewClusterHealth rt0 lg cl u) c"
    and "fst (fetchAndDecodeClusterHealth rt c) = (chr, err)"
  shows "\<exists>ms c'. Collect_scrape rt c = Some (ms, c') \<and>
     counterVal (totalScrapeErrorsMetric c') =
       counterVal (totalScrapeErrorsMetric c) + (if err = None then 0 else 1) \<and>
     gaugeVal (lastScrapeErrorMetric c') = (if err = None then 0 else 1) \<and>
     gaugeVal (lastScrapeErrorMetric c') \<in> {0, 1} \<and>
     count_list (drop (length (calls c)) (calls c')) TotalScrapeErrors_Inc =
       (if err = None then 0 else 1)"
proof -
  obtain tl where tl: "fetchCalls rt c = Client_Get (healthTarget rt c) # tl"
    and no: "TotalScrapeErrors_Inc \<notin> set tl"
    using fetchCalls_shape [of rt c] by blast
  obtain ms c' where r: "Collect_scrape rt c = Some (ms, c')"
    and e: "counterVal (totalScrapeErrorsMetric c') =
       counterVal (totalScrapeErrorsMetric c) + (if err = None then 0 else 1)"
    and g: "gaugeVal (lastScrapeErrorMetric c') = (if err = None then 0 else 1)"
    and cs: "calls c' = calls c @ TotalScrapes_Inc # fetchCalls rt c @
        (case err of None \<Rightarrow> [] | Some x \<Rightarrow> [Logger_Warn x, TotalScrapeErrors_Inc])"
    using Collect_scrape_built [OF assms] by blast
  have "count_list tl TotalScrapeErrors_Inc = 0"
    using no by (simp add: count_list_0_iff)
  then have "count_list (drop (length (calls c)) (calls c')) TotalScrapeErrors_Inc =
       (if err = None then 0 else 1)"
    using cs tl by (simp split: option.split)
  then show ?thesis
    using r e g by auto
qed

text \<open>
  The first scrape of a collector that is answered with status 500, and of one that is
  answered with status 200 and a health document.
\<close>

theorem scrape_errors_count_failed_fetches_witness:
  "fst (fetchAndDecodeClusterHealth goRuntime (collectorOf (answering 500 greenDocument))) =
     (zeroClusterHealthResponse, Some (StatusFailed 500)) \<and>
   (\<exists>ms c'. Collect_scrape goRuntime (collectorOf (answering 500 greenDocument)) = Some (ms, c') \<and>
      counterVal (totalScrapeErrorsMetric c') = 1 \<and> gaugeVal (lastScrapeErrorMetric c') = 1) \<and>
   fst (fetchAndDecodeClusterHealth goRuntime (collectorOf (answering 200 greenDocument))) =
     (es1Green\<lparr>ActivePrimaryShards := 5, ActiveShards := 10\<rparr>, None) \<and>
   (\<exists>ms c'. Collect_scrape goRuntime (collectorOf (answering 200 greenDocument)) = Some (ms, c') \<and>
      counterVal (totalScrapeErrorsMetric c') = 0 \<and> gaugeVal (lastScrapeErrorMetric c') = 0)"
proof -
  have a: "fst (fetchAndDecodeClusterHealth goRuntime (collectorOf (answering 500 greenDocument))) =
      (zeroClusterHealthResponse, Some (StatusFailed 500))"
    by (simp add: fetch_answering)
  have b: "fst (fetchAndDecodeClusterHealth goRuntime (collectorOf (answering 200 greenDocument))) =
      (es1Green\<lparr>ActivePrimaryShards := 5, ActiveShards := 10\<rparr>, None)"
    by (simp add: fetch_answering Decode_green)
  have z: "counterVal (totalScrapeErrorsMetric (collectorOf cl)) = 0" for cl
    by (simp add: collectorOf_def new_values)
  show ?thesis
    using scrape_errors_count_failed_fetches [OF built_collectorOf a]
      scrape_errors_count_failed_fetches [OF built_collectorOf b] a b
    by (simp add: z) blast
qed

text \<open>
  C1. For every fetched health record whose status is exactly one of \<open>green\<close>, \<open>yellow\<close>,
  \<open>red\<close>, \<^verbatim>\<open>Collect\<close> emits three status samples, one per color in that order, labelled
  with the cluster name and the color, of value 1 for the color of the record and 0 for the
  other two: their sum is exactly 1.
\<close>

theorem status_samples_one_hot:
  assumes "scrapedFrom (NewClusterHealth rt0 lg cl u) c"
    and "fst (fetchAndDecodeClusterHealth rt c) = (chr, err)"
    and "Status chr \<in> set colors"
  shows "\<exists>ms c'. Collect_scrape rt c = Some (ms, c') \<and>
     map sample (statusSamples ms) =
       [(''elasticsearch_cluster_health_status'', [ClusterName chr, ''green''],
           if Status chr = ''green'' then 1 else 0),
        (''elasticsearch_cluster_health_status'', [ClusterName chr, ''yellow''],
           if Status chr = ''yellow'' then 1 else 0),
        (''elasticsearch_cluster_health_status'', [ClusterName chr, ''red''],
           if Status chr = ''red'' then 1 else 0)] \<and>
     sum_list (map val (statusSamples ms)) = 1"
proof -
  obtain ms c' where r: "Collect_scrape rt c = Some (ms, c')"
    and s: "map sample (statusSamples ms) =
       [(''elasticsearch_cluster_health_status'', [ClusterName chr, ''green''],
           if Status chr = ''green'' then 1 else 0),
        (''elasticsearch_cluster_health_status'', [ClusterName chr, ''yellow''],
           if Status chr = ''yellow'' then 1 else 0),
        (''elasticsearch_cluster_health_status'', [ClusterName chr, ''red''],
           if Status chr = ''red'' then 1 else 0)]"
    using Collect_scrape_parts [OF assms(1,2)] by (elim exE conjE) (rule that; assumption)
  have v: "map val (statusSamples ms) = map (snd \<circ> snd) (map sample (statusSamples ms))"
    by (simp add: sample_def comp_def)
  have "sum_list (map val (statusSamples ms)) = 1"
    using assms(3) unfolding v s by (auto simp: colors_def)
  then show ?thesis
    using r s by (intro exI [of _ ms] exI [of _ c'] conjI) assumption+
qed

theorem status_samples_one_hot_witness:
  "scrapedFrom (NewClusterHealth goRuntime (Logger ''stderr'') (answering 200 greenDocument) esURL)
     (collectorOf (answering 200 greenDocument)) \<and>
   fst (fetchAndDecodeClusterHealth goRuntime (collectorOf (answering 200 greenDocument))) =
     (es1Green\<lparr>ActivePrimaryShards := 5, ActiveShards := 10\<rparr>, None) \<and>
   Status (es1Green\<lparr>ActivePrimaryShards := 5, ActiveShards := 10\<rparr>) \<in> set colors \<and>
   (\<exists>ms c'. Collect_scrape goRuntime (collectorOf (answering 200 greenDocument)) = Some (ms, c') \<and>
      map sample (statusSamples ms) =
        [(''elasticsearch_cluster_health_status'', [''es1'', ''green''], 1),
         (''elasticsearch_cluster_health_status'', [''es1'', ''yellow''], 0),
         (''elasticsearch_cluster_health_status'', [''es1'', ''red''], 0)] \<and>
      sum_list (map val (statusSamples ms)) = 1)"
proof -
  have f: "fst (fetchAndDecodeClusterHealth goRuntime (collectorOf (answering 200 greenDocument))) =
     (es1Green\<lparr>ActivePrimaryShards := 5, ActiveShards := 10\<rparr>, None)"
    by (simp add: fetch_answering Decode_green)
  have g: "Status (es1Green\<lparr>ActivePrimaryShards := 5, ActiveShards := 10\<rparr>) \<in> set colors"
    by (simp add: es1Green_def colors_def)
  show ?thesis
    using status_samples_one_hot [OF built_collectorOf f g] f g
    by (simp add: built_collectorOf es1Green_def)
qed

text \<open>
  C8. Within one \<^verbatim>\<open>Collect\<close> call the emission order is fixed: the 11 scalar samples in the
  order of the metric list, then the three status samples in the order green, yellow, red,
  then \<^verbatim>\<open>scrapes_total\<close>, \<^verbatim>\<open>scrape_errors_total\<close>, \<^verbatim>\<open>last_scrape_error\<close>,
  \<^verbatim>\<open>last_scrape_timestamp\<close>, \<^verbatim>\<open>last_scrape_duration_seconds\<close>. The sequence of names and
  label values is a function of the fetched record alone, so two runs over the same record
  emit the same sequence.
\<close>

theorem emission_order_fixed:
  assumes "scrapedFrom (NewClusterHealth rt0 lg cl u) c"
    and "fst (fetchAndDecodeClusterHealth rt c) = (chr, err)"
  shows "\<exists>ms c'. Collect_scrape rt c = Some (ms, c') \<and>
     map (\<lambda>m. (fqName (desc m), labelValues m)) ms =
       [(''elasticsearch_cluster_health_active_primary_shards'', [ClusterName chr]),
        (''elasticsearch_cluster_health_active_shards'', [ClusterName chr]),
        (''elasticsearch_cluster_health_delayed_unassigned_shards'', [ClusterName chr]),
        (''elasticsearch_cluster_health_initializing_shards'', [ClusterName chr]),
        (''elasticsearch_cluster_health_number_of_data_nodes'', [ClusterName chr]),
        (''elasticsearch_cluster_health_number_of_in_flight_fetch'', [ClusterName chr]),
        (''elasticsearch_cluster_health_number_of_nodes'', [ClusterName chr]),
        (''elasticsearch_cluster_health_number_of_pending_tasks'', [ClusterName chr]),
        (''elasticsearch_cluster_health_relocating_shards'', [ClusterName chr]),
        (''elasticsearch_cluster_health_timed_out'', [ClusterName chr]),
        (''elasticsearch_cluster_health_unassigned_shards'', [ClusterName chr]),
        (''elasticsearch_cluster_health_status'', [ClusterName chr, ''green'']),
        (''elasticsearch_cluster_health_status'', [ClusterName chr, ''yellow'']),
        (''elasticsearch_cluster_health_status'', [ClusterName chr, ''red'']),
        (''elasticsearch_cluster_health_scrapes_total'', []),
        (''elasticsearch_cluster_health_scrape_errors_total'', []),
        (''elasticsearch_cluster_health_last_scrape_error'', []),
        (''elasticsearch_cluster_health_last_scrape_timestamp'', []),
        (''elasticsearch_cluster_health_last_scrape_duration_seconds'', [])]"
proof -
  obtain ms c' where r: "Collect_scrape rt c = Some (ms, c')"
    and l: "map sample ms =
       [(''elasticsearch_cluster_health_active_primary_shards'', [ClusterName chr],
           real_of_int (ActivePrimaryShards chr)),
        (''elasticsearch_cluster_health_active_shards'', [ClusterName chr],
           real_of_int (ActiveShards chr)),
        (''elasticsearch_cluster_health_delayed_unassigned_shards'', [ClusterName chr],
           real_of_int (DelayedUnassignedShards chr)),
        (''elasticsearch_cluster_health_initializing_shards'', [ClusterName chr],
           real_of_int (InitializingShards chr)),
        (''elasticsearch_cluster_health_number_of_data_nodes'', [ClusterName chr],
           real_of_int (NumberOfDataNodes chr)),
        (''elasticsearch_cluster_health_number_of_in_flight_fetch'', [ClusterName chr],
           real_of_int (NumberOfInFlightFetch chr)),
        (''elasticsearch_cluster_health_number_of_nodes'', [ClusterName chr],
           real_of_int (NumberOfNodes chr)),
        (''elasticsearch_cluster_health_number_of_pending_tasks'', [ClusterName chr],
           real_of_int (NumberOfPendingTasks chr)),
        (''elasticsearch_cluster_health_relocating_shards'', [ClusterName chr],
           real_of_int (RelocatingShards chr)),
        (''elasticsearch_cluster_health_timed_out'', [ClusterName chr],
           if TimedOut chr then 1 else 0),
        (''elasticsearch_cluster_health_unassigned_shards'', [ClusterName chr],
           real_of_int (UnassignedShards chr)),
        (''elasticsearch_cluster_health_status'', [ClusterName chr, ''green''],
           if Status chr = ''green'' then 1 else 0),
        (''elasticsearch_cluster_health_status'', [ClusterName chr, ''yellow''],
           if Status chr = ''yellow'' then 1 else 0),
        (''elasticsearch_cluster_health_status'', [ClusterName chr, ''red''],
           if Status chr = ''red'' then 1 else 0),
        (''elasticsearch_cluster_health_scrapes_total'', [],
           counterVal (totalScrapesMetric c) + 1),
        (''elasticsearch_cluster_health_scrape_errors_total'', [],
           counterVal (totalScrapeErrorsMetric c) + (if err = None then 0 else 1)),
        (''elasticsearch_cluster_health_last_scrape_error'', [], if err = None then 0 else 1),
        (''elasticsearch_cluster_health_last_scrape_timestamp'', [],
           real_of_int (clock_stamp rt div 1000000000)),
        (''elasticsearch_cluster_health_last_scrape_duration_seconds'', [],
           real_of_int (clock_since rt - clock_begun rt) / 1000000000)]"
    using Collect_scrape_built [OF assms] by (elim exE conjE) (rule that; assumption)
  have "map (\<lambda>m. (fqName (desc m), labelValues m)) ms =
      map (\<lambda>s. (fst s, fst (snd s))) (map sample ms)"
    by (simp add: sample_def)
  also have "\<dots> =
       [(''elasticsearch_cluster_health_active_primary_shards'', [ClusterName chr]),
        (''elasticsearch_cluster_health_active_shards'', [ClusterName chr]),
        (''elasticsearch_cluster_health_delayed_unassigned_shards'', [ClusterName chr]),
        (''elasticsearch_cluster_health_initializing_shards'', [ClusterName chr]),
        (''elasticsearch_cluster_health_number_of_data_nodes'', [ClusterName chr]),
        (''elasticsearch_cluster_health_number_of_in_flight_fetch'', [ClusterName chr]),
        (''elasticsearch_cluster_health_number_of_nodes'', [ClusterName chr]),
        (''elasticsearch_cluster_health_number_of_pending_tasks'', [ClusterName chr]),
        (''elasticsearch_cluster_health_relocating_shards'', [ClusterName chr]),
        (''elasticsearch_cluster_health_timed_out'', [ClusterName chr]),
        (''elasticsearch_cluster_health_unassigned_shards'', [ClusterName chr]),
        (''elasticsearch_cluster_health_status'', [ClusterName chr, ''green'']),
        (''elasticsearch_cluster_health_status'', [ClusterName chr, ''yellow'']),
        (''elasticsearch_cluster_health_status'', [ClusterName chr, ''red'']),
        (''elasticsearch_cluster_health_scrapes_total'', []),
        (''elasticsearch_cluster_health_scrape_errors_total'', []),
        (''elasticsearch_cluster_health_last_scrape_error'', []),
        (''elasticsearch_cluster_health_last_scrape_timestamp'', []),
        (''elasticsearch_cluster_health_last_scrape_duration_seconds'', [])]"
    unfolding l by simp
  finally show ?thesis
    using r by (intro exI [of _ ms] exI [of _ c'] conjI) assumption+
qed

text \<open>The first scrape of a collector whose client is refused.\<close>

theorem emission_order_fixed_witness:
  "scrapedFrom (NewClusterHealth goRuntime (Logger ''stderr'') refusing esURL)
     (collectorOf refusing) \<and>
   fst (fetchAndDecodeClusterHealth goRuntime (collectorOf refusing)) =
     (zeroClusterHealthResponse,
      Some (GetFailed ''http://localhost:9200/_cluster/health'' ''connection refused'')) \<and>
   (\<exists>ms c'. Collect_scrape goRuntime (collectorOf refusing) = Some (ms, c') \<and>
      map (\<lambda>m. (fqName (desc m), labelValues m)) ms =
       [(''elasticsearch_cluster_health_active_primary_shards'', [[]]),
        (''elasticsearch_cluster_health_active_shards'', [[]]),
        (''elasticsearch_cluster_health_delayed_unassigned_shards'', [[]]),
        (''elasticsearch_cluster_health_initializing_shards'', [[]]),
        (''elasticsearch_cluster_health_number_of_data_nodes'', [[]]),
        (''elasticsearch_cluster_health_number_of_in_flight_fetch'', [[]]),
        (''elasticsearch_cluster_health_number_of_nodes'', [[]]),
        (''elasticsearch_cluster_health_number_of_pending_tasks'', [[]]),
        (''elasticsearch_cluster_health_relocating_shards'', [[]]),
        (''elasticsearch_cluster_health_timed_out'', [[]]),
        (''elasticsearch_cluster_health_unassigned_shards'', [[]]),
        (''elasticsearch_cluster_health_status'', [[], ''green'']),
        (''elasticsearch_cluster_health_status'', [[], ''yellow'']),
        (''elasticsearch_cluster_health_status'', [[], ''red'']),
        (''elasticsearch_cluster_health_scrapes_total'', []),
        (''elasticsearch_cluster_health_scrape_errors_total'', []),
        (''elasticsearch_cluster_health_last_scrape_error'', []),
        (''elasticsearch_cluster_health_last_scrape_timestamp'', []),
        (''elasticsearch_cluster_health_last_scrape_duration_seconds'', [])])"
  using emission_order_fixed [OF built_collectorOf fetch_refusing]
  by (simp add: built_collectorOf fetch_refusing zeroClusterHealthResponse_def)

text \<open>
  C7. \<^verbatim>\<open>Describe\<close> sends exactly 12 descriptors, each once: the descriptors of the 11 scalar
  metrics in the order of the metric list, then the status descriptor. It takes the
  collector alone and returns the descriptors alone, so it makes no request and leaves the
  collector as it is; its result does not depend on the client or on the calls made so
  far, is the same after a scrape as before, and is that of the collector as constructed.
\<close>

theorem describe_twelve_descriptors:
  assumes "scrapedFrom (NewClusterHealth rt0 lg cl u) c"
  shows "length (Describe c) = 12 \<and>
     take 11 (Describe c) = map metricDesc (metrics c) \<and>
     drop 11 (Describe c) = [statusDesc (statusMetric c)] \<and>
     distinct (Describe c) \<and>
     map fqName (Describe c) =
       [''elasticsearch_cluster_health_active_primary_shards'',
        ''elasticsearch_cluster_health_active_shards'',
        ''elasticsearch_cluster_health_delayed_unassigned_shards'',
        ''elasticsearch_cluster_health_initializing_shards'',
        ''elasticsearch_cluster_health_number_of_data_nodes'',
        ''elasticsearch_cluster_health_number_of_in_flight_fetch'',
        ''elasticsearch_cluster_health_number_of_nodes'',
        ''elasticsearch_cluster_health_number_of_pending_tasks'',
        ''elasticsearch_cluster_health_relocating_shards'',
        ''elasticsearch_cluster_health_timed_out'',
        ''elasticsearch_cluster_health_unassigned_shards'',
        ''elasticsearch_cluster_health_status''] \<and>
     Describe c = Describe (NewClusterHealth rt0 lg cl u) \<and>
     Describe (c\<lparr>client := cl', calls := cs\<rparr>) = Describe c \<and>
     (\<exists>ms c'. Collect_scrape rt c = Some (ms, c') \<and> Describe c' = Describe c)"
proof -
  let ?c0 = "NewClusterHealth rt0 lg cl u"
  have mc: "metrics c = metrics ?c0" and sc: "statusMetric c = statusMetric ?c0"
    using assms by (simp_all add: scrapedFrom_def)
  have eq: "Describe c = Describe ?c0"
    by (rule Describe_cong [OF mc sc])
  have names: "map fqName (Describe c) =
       [''elasticsearch_cluster_health_active_primary_shards'',
        ''elasticsearch_cluster_health_active_shards'',
        ''elasticsearch_cluster_health_delayed_unassigned_shards'',
        ''elasticsearch_cluster_health_initializing_shards'',
        ''elasticsearch_cluster_health_number_of_data_nodes'',
        ''elasticsearch_cluster_health_number_of_in_flight_fetch'',
        ''elasticsearch_cluster_health_number_of_nodes'',
        ''elasticsearch_cluster_health_number_of_pending_tasks'',
        ''elasticsearch_cluster_health_relocating_shards'',
        ''elasticsearch_cluster_health_timed_out'',
        ''elasticsearch_cluster_health_unassigned_shards'',
        ''elasticsearch_cluster_health_status'']"
    unfolding eq by (rule Describe_new)
  have len: "length (Describe c) = 12"
    using arg_cong [OF names, of length] by simp
  have lm: "length (metrics c) = 11"
    using len by (simp add: Describe_def)
  have "distinct (map fqName (Describe c))"
    unfolding names by simp
  then have dist: "distinct (Describe c)"
    by (simp add: distinct_map)
  have upd: "Describe (c\<lparr>client := cl', calls := cs\<rparr>) = Describe c"
    by (simp add: Describe_def)
  obtain chr err where f: "fst (fetchAndDecodeClusterHealth rt c) = (chr, err)"
    by (cases "fst (fetchAndDecodeClusterHealth rt c)")
  obtain ms c' where r: "Collect_scrape rt c = Some (ms, c')"
    and b': "scrapedFrom ?c0 c'"
    using Collect_scrape_built [OF assms f] by (elim exE conjE) (rule that; assumption)
  have "Describe c' = Describe c"
    using b' mc sc by (simp add: scrapedFrom_def Describe_def)
  with r have after: "\<exists>ms c'. Collect_scrape rt c = Some (ms, c') \<and> Describe c' = Describe c"
    by (intro exI [of _ ms] exI [of _ c'] conjI) assumption+
  have tk: "take 11 (Describe c) = map metricDesc (metrics c)"
    and dr: "drop 11 (Describe c) = [statusDesc (statusMetric c)]"
    using lm by (simp_all add: Describe_def)
  show ?thesis
    by (intro conjI) (fact len tk dr dist names eq upd after)+
qed

theorem describe_twelve_descriptors_witness:
  "scrapedFrom (NewClusterHealth goRuntime (Logger ''stderr'') refusing esURL)
     (collectorOf refusing) \<and>
   length (Describe (collectorOf refusing)) = 12 \<and> distinct (Describe (collectorOf refusing)) \<and>
   (\<exists>ms c'. Collect_scrape goRuntime (collectorOf refusing) = Some (ms, c') \<and>
      Describe c' = Describe (collectorOf refusing))"
proof -
  note t = describe_twelve_descriptors [OF built_collectorOf [of refusing], where rt = goRuntime]
  note a = t [THEN conjunct1]
  note b = t [THEN conjunct2, THEN conjunct2, THEN conjunct2, THEN conjunct1]
  note c = t [THEN conjunct2, THEN conjunct2, THEN conjunct2, THEN conjunct2, THEN conjunct2,
    THEN conjunct2, THEN conjunct2]
  show ?thesis
    by (intro conjI) (fact built_collectorOf a b c)+
qed











text \<open>
  C10. For a response whose status code is not 200, \<^verbatim>\<open>fetchAndDecodeClusterHealth\<close> returns
  the error carrying that code with the zero-valued record; it calls the client and closes
  the body and never calls the decoder, so that its result is the same whatever the decoder
  would do with the body. A decode error therefore arises only when the status is 200.
\<close>

theorem non_ok_status_skips_decoding:
  "(client c (healthTarget rt c) = Inr res \<and> StatusCode res \<noteq> 200 \<longrightarrow>
      fst (fetchAndDecodeClusterHealth rt c) =
        (zeroClusterHealthResponse, Some (StatusFailed (StatusCode res))) \<and>
      fetchCalls rt c = [Client_Get (healthTarget rt c), Body_Close] \<and>
      fetchAndDecodeClusterHealth (rt\<lparr>json_Decode := dec\<rparr>) c =
        fetchAndDecodeClusterHealth rt c) \<and>
   (fst (fetchAndDecodeClusterHealth rt c) = (chr, Some (DecodeFailed e)) \<longrightarrow>
      (\<exists>ok. client c (healthTarget rt c) = Inr ok \<and> StatusCode ok = 200))"
proof (intro conjI impI; (elim conjE)?)
  assume a: "client c (healthTarget rt c) = Inr res" and b: "StatusCode res \<noteq> 200"
  show "fst (fetchAndDecodeClusterHealth rt c) =
        (zeroClusterHealthResponse, Some (StatusFailed (StatusCode res)))"
    by (rule fetch_not_ok(1) [OF a b])
  show "fetchCalls rt c = [Client_Get (healthTarget rt c), Body_Close]"
    by (rule fetch_not_ok(2) [OF a b])
  show "fetchAndDecodeClusterHealth (rt\<lparr>json_Decode := dec\<rparr>) c =
        fetchAndDecodeClusterHealth rt c"
    using a b by (simp add: fetchAndDecodeClusterHealth_def healthTarget_def Let_def)
next
  assume "fst (fetchAndDecodeClusterHealth rt c) = (chr, Some (DecodeFailed e))"
  then show "\<exists>ok. client c (healthTarget rt c) = Inr ok \<and> StatusCode ok = 200"
    by (auto simp: fetchAndDecodeClusterHealth_def healthTarget_def Let_def
        split: sum.splits if_splits prod.splits option.splits)
qed

text \<open>
  A response with status 500 whose body is a health document that decodes without error,
  and the mistyped response with status 200.
\<close>

theorem non_ok_status_skips_decoding_witness:
  "client (collectorOf (answering 500 greenDocument))
     (healthTarget goRuntime (collectorOf (answering 500 greenDocument))) =
     Inr \<lparr>StatusCode = 500, Body = greenDocument\<rparr> \<and>
   Decode greenDocument zeroClusterHealthResponse =
     (es1Green\<lparr>ActivePrimaryShards := 5, ActiveShards := 10\<rparr>, None) \<and>
   fst (fetchAndDecodeClusterHealth goRuntime (collectorOf (answering 500 greenDocument))) =
     (zeroClusterHealthResponse, Some (StatusFailed 500)) \<and>
   fetchCalls goRuntime (collectorOf (answering 500 greenDocument)) =
     [Client_Get ''http://localhost:9200/_cluster/health'', Body_Close] \<and>
   fst (fetchAndDecodeClusterHealth goRuntime (collectorOf (answering 200 mistypedDocument))) =
     (es1Green, Some (DecodeFailed (UnmarshalTypeError ''string'' ''timed_out''))) \<and>
   (\<exists>ok. client (collectorOf (answering 200 mistypedDocument))
        (healthTarget goRuntime (collectorOf (answering 200 mistypedDocument))) = Inr ok \<and>
      StatusCode ok = 200)"
  using
    non_ok_status_skips_decoding [where c = "collectorOf (answering 500 greenDocument)"
      and rt = goRuntime and res = "\<lparr>StatusCode = 500, Body = greenDocument\<rparr>"
      and chr = es1Green and e = "UnmarshalTypeError ''string'' ''timed_out''" and dec = Decode]
    non_ok_status_skips_decoding [where c = "collectorOf (answering 200 mistypedDocument)"
      and rt = goRuntime and res = "\<lparr>StatusCode = 500, Body = greenDocument\<rparr>"
      and chr = es1Green and e = "UnmarshalTypeError ''string'' ''timed_out''" and dec = Decode]
  by (simp add: client_collectorOf target_collectorOf answering_def Decode_green fetch_mistyped)

end
